theory Spec2Isabelle
  imports Main
begin

section \<open>The Wild Apricot social provider of better-auth\<close>

text \<open>
  A shallow embedding of \<^verbatim>\<open>packages/better-auth/src/social-providers/wildapricot.ts\<close>.
  The adapter is a closure over its options; here every operation takes the options as an
  argument. The two effects of the file, the HTTP client \<^verbatim>\<open>betterFetch\<close> and the clock
  \<^verbatim>\<open>Date.now()\<close>, are arguments as well, so a theorem about an operation holds for every
  answer of the network and every time of call. A rejected promise is \<open>Inl\<close>, a fulfilled one
  \<open>Inr\<close>.
\<close>

subsection \<open>JavaScript values and objects\<close>

datatype js_value =
    JUndefined
  | JNull
  | JBool bool
  | JNum int
  | JStr string
  | JArray "js_value list"
  | JObject "(string \<times> js_value) list"

text \<open>An object is read by key; the spread of one object over another is \<open>++\<close>.\<close>

type_synonym js_object = "string \<rightharpoonup> js_value"

datatype js_error =
    APIError string string  \<comment> \<open>\<^verbatim>\<open>new APIError(status, {message})\<close>\<close>
  | TypeError               \<comment> \<open>a property read on \<^verbatim>\<open>null\<close>\<close>

subsection \<open>Data model\<close>

record MembershipLevelRef =
  LevelId :: int
  Name :: string

text \<open>
  \<^verbatim>\<open>Status\<close> is declared a string, but the code guards against its absence
  (\<^verbatim>\<open>profile.Status ?? "NoMembership"\<close>), so it is optional here; \<open>None\<close> stands for
  both \<^verbatim>\<open>undefined\<close> and \<^verbatim>\<open>null\<close>, which \<^verbatim>\<open>??\<close>, \<^verbatim>\<open>?.\<close> and
  \<^verbatim>\<open>includes\<close> with string elements do not tell apart. \<^verbatim>\<open>Id\<close> is an integer: contact
  ids are whole numbers.
\<close>

record WildApricotProfile =
  Id :: int
  FirstName :: string
  LastName :: string
  Email :: string
  Status :: "string option"
  MembershipLevel :: "MembershipLevelRef option"
  IsAccountAdministrator :: bool
  AdministrativeRoleTypes :: "string list"

text \<open>
  The mapping function returns an object; the code also accepts a falsy result
  (\<^verbatim>\<open>|| {}\<close>), which is \<open>None\<close>.
\<close>

record WildApricotOptions =
  clientId :: string
  clientSecret :: string
  siteName :: "string option"
  accountId :: string
  redirectURI :: "string option"
  scopes :: "string list option"
  mapProfileToUser :: "(WildApricotProfile \<Rightarrow> js_object option) option"

record OAuth2Tokens =
  accessToken :: string
  refreshToken :: string
  accessTokenExpiresAt :: "int option"  \<comment> \<open>a \<^verbatim>\<open>Date\<close>, as milliseconds since the epoch\<close>
  tokenScopes :: "string list option"    \<comment> \<open>the field \<^verbatim>\<open>scopes\<close>\<close>

text \<open>The body of the token endpoint's answer.\<close>

record TokenResponse =
  access_token :: string
  refresh_token :: string
  expires_in :: "int option"
  scope :: "string option"

text \<open>What \<^verbatim>\<open>betterFetch\<close> is called with, and what it resolves to.\<close>

record fetch_request =
  url :: string
  httpMethod :: "string option"
  headers :: "(string \<times> string) list"
  body :: "(string \<times> string) list option"

record ('a, 'e) fetch_response =
  data :: "'a option"
  error :: "'e option"

text \<open>The arguments of the shared helper \<^verbatim>\<open>createAuthorizationURL\<close> of \<^verbatim>\<open>../oauth2\<close>.\<close>

record ProviderOptions =
  optClientId :: string
  optClientSecret :: string
  optRedirectURI :: "string option"

record AuthorizationData =
  dataState :: string
  dataRedirectURI :: "string option"

record AuthorizationURLArgs =
  providerId :: string
  options :: ProviderOptions
  authorizationEndpoint :: string
  state :: string
  scopesArg :: "string list"
  redirectURIArg :: "string option"

record UserInfo =
  user :: js_object
  profileData :: WildApricotProfile  \<comment> \<open>the field \<^verbatim>\<open>data\<close>\<close>

subsection \<open>Library functions of JavaScript\<close>

text \<open>\<^verbatim>\<open>String(n)\<close> for an integer \<open>n\<close>: decimal digits, with a minus sign below zero.\<close>

definition digit_char :: "nat \<Rightarrow> char" where
  "digit_char d = char_of (48 + d)"

function digits10 :: "nat \<Rightarrow> string" where
  "digits10 n = (if n < 10 then [digit_char n] else digits10 (n div 10) @ [digit_char (n mod 10)])"
  by pat_completeness auto
termination
  by (relation "measure (\<lambda>n. n)") auto

declare digits10.simps [simp del]

definition String_of_number :: "int \<Rightarrow> string" where
  "String_of_number i = (if i < 0 then CHR ''-'' # digits10 (nat (- i)) else digits10 (nat i))"

text \<open>\<^verbatim>\<open>s.split(" ")\<close>: the pieces of \<open>s\<close> between its separator characters.\<close>

fun split_on :: "char \<Rightarrow> string \<Rightarrow> string list" where
  "split_on c [] = [[]]"
| "split_on c (x # xs) =
     (if x = c then [] # split_on c xs
      else (case split_on c xs of
              w # ws \<Rightarrow> (x # w) # ws
            | [] \<Rightarrow> [[x]]))"

text \<open>A string is truthy when it is present and not empty.\<close>

definition truthy_string :: "string option \<Rightarrow> bool" where
  "truthy_string s = (case s of None \<Rightarrow> False | Some t \<Rightarrow> t \<noteq> [])"

text \<open>A number is truthy when it is present and not zero.\<close>

definition truthy_number :: "int option \<Rightarrow> bool" where
  "truthy_number n = (case n of None \<Rightarrow> False | Some k \<Rightarrow> k \<noteq> 0)"

subsection \<open>The adapter\<close>

definition WA_SITE_URL :: "WildApricotOptions \<Rightarrow> string" where
  "WA_SITE_URL opts =
     (if truthy_string (siteName opts)
      then ''https://'' @ (case siteName opts of Some s \<Rightarrow> s | None \<Rightarrow> []) @ ''.wildapricot.org''
      else ''https://www.wildapricot.org'')"

definition WA_BASE_URL :: string where
  "WA_BASE_URL = ''https://oauth.wildapricot.org''"

definition WA_API_URL :: string where
  "WA_API_URL = ''https://api.wildapricot.org''"

text \<open>
  \<^verbatim>\<open>createAuthorizationURL(data)\<close> hands one object to the shared helper and returns
  the helper's result. An array is truthy even when empty, so
  \<^verbatim>\<open>scopes || ["contacts_me"]\<close> falls back only when no list is configured.
\<close>

definition authorizationURLArgs :: "WildApricotOptions \<Rightarrow> AuthorizationData \<Rightarrow> AuthorizationURLArgs" where
  "authorizationURLArgs opts d =
     \<lparr> providerId = ''wildapricot'',
       options = \<lparr> optClientId = clientId opts,
                   optClientSecret = clientSecret opts,
                   optRedirectURI = redirectURI opts \<rparr>,
       authorizationEndpoint = WA_SITE_URL opts @ ''/sys/login/OAuthLogin'',
       state = dataState d,
       scopesArg = (case scopes opts of Some ss \<Rightarrow> ss | None \<Rightarrow> [''contacts_me'']),
       redirectURIArg = dataRedirectURI d \<rparr>"

definition createAuthorizationURL ::
  "(AuthorizationURLArgs \<Rightarrow> 'r) \<Rightarrow> WildApricotOptions \<Rightarrow> AuthorizationData \<Rightarrow> 'r" where
  "createAuthorizationURL helper opts d = helper (authorizationURLArgs opts d)"

text \<open>
  \<^verbatim>\<open>refreshAccessToken(refreshToken)\<close>. \<open>base64\<close> is
  \<^verbatim>\<open>Buffer.from(s).toString("base64")\<close>; \<open>now\<close> is \<^verbatim>\<open>Date.now()\<close>.
\<close>

definition refreshRequest :: "(string \<Rightarrow> string) \<Rightarrow> WildApricotOptions \<Rightarrow> string \<Rightarrow> fetch_request" where
  "refreshRequest base64 opts rt =
     \<lparr> url = WA_BASE_URL @ ''/auth/token'',
       httpMethod = Some ''POST'',
       headers = [(''Content-Type'', ''application/x-www-form-urlencoded''),
                  (''Authorization'', ''Basic '' @ base64 (clientId opts @ '':'' @ clientSecret opts))],
       body = Some [(''grant_type'', ''refresh_token''), (''refresh_token'', rt)] \<rparr>"

definition refreshAccessToken ::
  "(fetch_request \<Rightarrow> (TokenResponse, 'e) fetch_response) \<Rightarrow> (string \<Rightarrow> string) \<Rightarrow> int \<Rightarrow>
     WildApricotOptions \<Rightarrow> string \<Rightarrow> js_error + OAuth2Tokens" where
  "refreshAccessToken betterFetch base64 now opts rt =
     (let response = betterFetch (refreshRequest base64 opts rt) in
      if error response \<noteq> None
      then Inl (APIError ''BAD_REQUEST'' ''Failed to refresh access token'')
      else (case data response of
              None \<Rightarrow> Inl TypeError
            | Some d \<Rightarrow>
                Inr \<lparr> accessToken = access_token d,
                      refreshToken = refresh_token d,
                      accessTokenExpiresAt =
                        (if truthy_number (expires_in d)
                         then Some (now + (case expires_in d of Some e \<Rightarrow> e | None \<Rightarrow> 0) * 1000)
                         else None),
                      tokenScopes = map_option (split_on CHR '' '') (scope d) \<rparr>))"

text \<open>\<^verbatim>\<open>getUserInfo(tokens)\<close>.\<close>

definition userInfoRequest :: "WildApricotOptions \<Rightarrow> OAuth2Tokens \<Rightarrow> fetch_request" where
  "userInfoRequest opts tokens =
     \<lparr> url = WA_API_URL @ ''/v2.1/accounts/'' @ accountId opts @ ''/contacts/me'',
       httpMethod = None,
       headers = [(''Authorization'', ''Bearer '' @ accessToken tokens),
                  (''Accept'', ''application/json'')],
       body = None \<rparr>"

definition isActiveMember :: "string option \<Rightarrow> bool" where
  "isActiveMember status =
     (case status of
        None \<Rightarrow> False
      | Some s \<Rightarrow> s \<in> set [''Active'', ''PendingRenewal'', ''PendingLevelChange''])"

definition baseUser :: "WildApricotProfile \<Rightarrow> js_object" where
  "baseUser profile =
     [ ''id'' \<mapsto> JStr (String_of_number (Id profile)),
       ''name'' \<mapsto> JStr (FirstName profile @ '' '' @ LastName profile),
       ''email'' \<mapsto> JStr (Email profile),
       ''emailVerified'' \<mapsto> JBool True,
       ''image'' \<mapsto> JNull ]"

definition additionalFields :: "WildApricotOptions \<Rightarrow> WildApricotProfile \<Rightarrow> js_object" where
  "additionalFields opts profile =
     (case mapProfileToUser opts of
        None \<Rightarrow> Map.empty
      | Some f \<Rightarrow> (case f profile of None \<Rightarrow> Map.empty | Some m \<Rightarrow> m))"

text \<open>The object literal up to the spread of the mapping function's result.\<close>

definition defaultUser :: "WildApricotProfile \<Rightarrow> js_object" where
  "defaultUser profile =
     baseUser profile ++
     [ ''membershipStatus'' \<mapsto> JStr (case Status profile of Some s \<Rightarrow> s | None \<Rightarrow> ''NoMembership''),
       ''membershipLevel'' \<mapsto> (case MembershipLevel profile of Some l \<Rightarrow> JStr (Name l) | None \<Rightarrow> JNull),
       ''isActiveMember'' \<mapsto> JBool (isActiveMember (Status profile)),
       ''isAdmin'' \<mapsto> JBool (IsAccountAdministrator profile) ]"

definition getUserInfo ::
  "(fetch_request \<Rightarrow> (WildApricotProfile, 'e) fetch_response) \<Rightarrow> WildApricotOptions \<Rightarrow>
     OAuth2Tokens \<Rightarrow> js_error + UserInfo option" where
  "getUserInfo betterFetch opts tokens =
     (let userInfo = betterFetch (userInfoRequest opts tokens) in
      if error userInfo \<noteq> None \<or> data userInfo = None
      then Inr None
      else (case data userInfo of
              None \<Rightarrow> Inr None
            | Some profile \<Rightarrow>
                Inr (Some \<lparr> user = defaultUser profile ++ additionalFields opts profile,
                            profileData = profile \<rparr>)))"

subsection \<open>Notions of the specification\<close>

text \<open>
  The specification speaks of a string split on spaces, of the decimal representation of
  a number and of the result of a call. These definitions say what that means,
  independently of the functions above.
\<close>

text \<open>\<^verbatim>\<open>ws.join(sep)\<close>: the inverse of splitting.\<close>

fun join_with :: "string \<Rightarrow> string list \<Rightarrow> string" where
  "join_with sep [] = []"
| "join_with sep [w] = w"
| "join_with sep (w # v # ws) = w @ sep @ join_with sep (v # ws)"

text \<open>Reading a decimal numeral: digits are the characters 48 to 57.\<close>

definition is_digit :: "char \<Rightarrow> bool" where
  "is_digit ch = (48 \<le> (of_char ch :: nat) \<and> (of_char ch :: nat) < 58)"

definition digit_value :: "char \<Rightarrow> nat" where
  "digit_value ch = of_char ch - 48"

definition decimal_value :: "string \<Rightarrow> nat" where
  "decimal_value s = foldl (\<lambda>a ch. 10 * a + digit_value ch) 0 s"

definition int_of_decimal :: "string \<Rightarrow> int" where
  "int_of_decimal s =
     (case s of
        [] \<Rightarrow> 0
      | ch # t \<Rightarrow> if ch = CHR ''-'' then - int (decimal_value t) else int (decimal_value s))"

text \<open>The field \<open>k\<close> of the normalized user a call resolved to, if it resolved to one.\<close>

definition userField :: "js_error + UserInfo option \<Rightarrow> string \<Rightarrow> js_value option" where
  "userField res k =
     (case res of
        Inl e \<Rightarrow> None
      | Inr None \<Rightarrow> None
      | Inr (Some r) \<Rightarrow> user r k)"

subsection \<open>Sample configurations, profiles and upstream answers\<close>

definition sampleOptions :: WildApricotOptions where
  "sampleOptions =
     \<lparr> clientId = ''client-id'',
       clientSecret = ''client-secret'',
       siteName = Some ''myclub'',
       accountId = ''201234'',
       redirectURI = None,
       scopes = None,
       mapProfileToUser = None \<rparr>"

definition sampleTokens :: OAuth2Tokens where
  "sampleTokens =
     \<lparr> accessToken = ''at-1'',
       refreshToken = ''rt-1'',
       accessTokenExpiresAt = None,
       tokenScopes = None \<rparr>"

text \<open>A lapsed member who administers the account.\<close>

definition lapsedAdmin :: WildApricotProfile where
  "lapsedAdmin =
     \<lparr> Id = 42,
       FirstName = ''Ada'',
       LastName = ''Byron'',
       Email = ''ada@example.org'',
       Status = Some ''Lapsed'',
       MembershipLevel = None,
       IsAccountAdministrator = True,
       AdministrativeRoleTypes = [''AccountAdministrator''] \<rparr>"

definition activeMember :: WildApricotProfile where
  "activeMember =
     \<lparr> Id = 1205,
       FirstName = ''Grace'',
       LastName = ''Hopper'',
       Email = ''grace@example.org'',
       Status = Some ''Active'',
       MembershipLevel = Some \<lparr> LevelId = 7, Name = ''Gold'' \<rparr>,
       IsAccountAdministrator = False,
       AdministrativeRoleTypes = [] \<rparr>"

text \<open>A contact whose status is the empty string, and one with no status at all.\<close>

definition emptyStatus :: WildApricotProfile where
  "emptyStatus = lapsedAdmin \<lparr> Status := Some [] \<rparr>"

definition noStatus :: WildApricotProfile where
  "noStatus = lapsedAdmin \<lparr> Status := None \<rparr>"

text \<open>
  An upstream that answers with a profile, one that answers with an error, and one that
  answers with neither.
\<close>

definition fetchProfile ::
  "WildApricotProfile \<Rightarrow> fetch_request \<Rightarrow> (WildApricotProfile, string) fetch_response" where
  "fetchProfile p req = \<lparr> data = Some p, error = None \<rparr>"

definition fetchFailure :: "string \<Rightarrow> fetch_request \<Rightarrow> ('a, string) fetch_response" where
  "fetchFailure e req = \<lparr> data = None, error = Some e \<rparr>"

definition fetchNothing :: "fetch_request \<Rightarrow> ('a, string) fetch_response" where
  "fetchNothing req = \<lparr> data = None, error = None \<rparr>"

definition fetchTokens ::
  "TokenResponse \<Rightarrow> fetch_request \<Rightarrow> (TokenResponse, string) fetch_response" where
  "fetchTokens t req = \<lparr> data = Some t, error = None \<rparr>"

text \<open>Mapping functions an application may configure.\<close>

definition mapNotAdmin :: "WildApricotProfile \<Rightarrow> js_object option" where
  "mapNotAdmin p = Some [''isAdmin'' \<mapsto> JBool False]"

definition mapAlwaysActive :: "WildApricotProfile \<Rightarrow> js_object option" where
  "mapAlwaysActive p = Some [''isActiveMember'' \<mapsto> JBool True]"

definition mapMembership :: "WildApricotProfile \<Rightarrow> js_object option" where
  "mapMembership p = Some [''membershipStatus'' \<mapsto> JStr ''Guest'', ''membershipLevel'' \<mapsto> JStr ''Basic'']"

definition mapEmptyId :: "WildApricotProfile \<Rightarrow> js_object option" where
  "mapEmptyId p = Some [''id'' \<mapsto> JStr []]"

definition mapBaseFields :: "WildApricotProfile \<Rightarrow> js_object option" where
  "mapBaseFields p =
     Some [ ''id'' \<mapsto> JStr (''wa-'' @ String_of_number (Id p)),
            ''name'' \<mapsto> JStr (LastName p),
            ''email'' \<mapsto> JNull,
            ''emailVerified'' \<mapsto> JBool False,
            ''image'' \<mapsto> JStr ''https://example.org/ada.png'' ]"

section \<open>Properties\<close>

subsection \<open>Splitting and decimal notation\<close>

lemma split_on_nonempty: "split_on c s \<noteq> []"
  by (induction s) (auto split: list.splits)

lemma join_split_on: "join_with [c] (split_on c s) = s"
proof (induction s)
  case Nil
  show ?case by simp
next
  case (Cons x xs)
  show ?case
  proof (cases "x = c")
    case True
    with Cons split_on_nonempty [of c xs] show ?thesis
      by (cases "split_on c xs") auto
  next
    case False
    with Cons split_on_nonempty [of c xs] show ?thesis
      by (cases "split_on c xs"; cases "tl (split_on c xs)") auto
  qed
qed

lemma split_on_pieces: "w \<in> set (split_on c s) \<Longrightarrow> c \<notin> set w"
  by (induction s arbitrary: w) (auto split: if_splits list.splits)

lemma length_split_on: "length (split_on c s) = Suc (count_list s c)"
  by (induction s) (auto split: list.splits simp: split_on_nonempty)

lemma digits10_small: "n < 10 \<Longrightarrow> digits10 n = [digit_char n]"
  by (subst digits10.simps) simp

lemma digits10_large:
  "\<not> n < 10 \<Longrightarrow> digits10 n = digits10 (n div 10) @ [digit_char (n mod 10)]"
  by (subst digits10.simps) simp

lemma digit_char_values:
  "digit_char 0 = CHR ''0''" "digit_char 1 = CHR ''1''" "digit_char 2 = CHR ''2''"
  "digit_char 3 = CHR ''3''" "digit_char 4 = CHR ''4''" "digit_char 5 = CHR ''5''"
  "digit_char 6 = CHR ''6''" "digit_char 7 = CHR ''7''" "digit_char 8 = CHR ''8''"
  "digit_char 9 = CHR ''9''" "digit_char (Suc 0) = CHR ''1''"
  by (simp_all add: digit_char_def char_of_def bit_Suc_0_iff)

lemmas String_of_number_eval =
  String_of_number_def digits10_small digits10_large digit_char_values

lemma digits10_nonempty: "digits10 n \<noteq> []"
  by (subst digits10.simps) simp

lemma String_of_number_nonempty: "String_of_number i \<noteq> []"
  by (simp add: String_of_number_def digits10_nonempty)

lemma of_char_digit_char: "d < 10 \<Longrightarrow> (of_char (digit_char d) :: nat) = 48 + d"
  by (simp add: digit_char_def)

lemma digit_value_digit_char: "d < 10 \<Longrightarrow> digit_value (digit_char d) = d"
  by (simp add: digit_value_def of_char_digit_char)

lemma is_digit_digit_char: "d < 10 \<Longrightarrow> is_digit (digit_char d)"
  by (simp add: is_digit_def of_char_digit_char)

lemma decimal_value_snoc: "decimal_value (s @ [ch]) = 10 * decimal_value s + digit_value ch"
  by (simp add: decimal_value_def)

lemma decimal_value_digits10: "decimal_value (digits10 n) = n"
proof (induction n rule: digits10.induct)
  case (1 n)
  show ?case
  proof (cases "n < 10")
    case True
    then show ?thesis
      by (simp add: digits10_small decimal_value_def digit_value_digit_char)
  next
    case False
    with 1 show ?thesis
      by (simp add: digits10_large decimal_value_snoc digit_value_digit_char)
  qed
qed

lemma digits10_digits: "ch \<in> set (digits10 n) \<Longrightarrow> is_digit ch"
proof (induction n rule: digits10.induct)
  case (1 n)
  show ?case
  proof (cases "n < 10")
    case True
    with 1(2) show ?thesis
      by (simp add: digits10_small is_digit_digit_char)
  next
    case False
    with 1 show ?thesis
      by (auto simp: digits10_large is_digit_digit_char)
  qed
qed

lemma minus_not_digit: "\<not> is_digit CHR ''-''"
  by (simp add: is_digit_def)

lemma hd_digits10_not_minus: "digits10 n = ch # t \<Longrightarrow> ch \<noteq> CHR ''-''"
  using digits10_digits [of ch n] minus_not_digit by auto

lemma int_of_decimal_String_of_number: "int_of_decimal (String_of_number i) = i"
proof (cases "i < 0")
  case True
  then show ?thesis
    by (simp add: String_of_number_def int_of_decimal_def decimal_value_digits10)
next
  case False
  obtain ch t where dt: "digits10 (nat i) = ch # t"
    using digits10_nonempty [of "nat i"] by (cases "digits10 (nat i)") auto
  from hd_digits10_not_minus [OF dt] have "ch \<noteq> CHR ''-''" .
  with False dt decimal_value_digits10 [of "nat i"] show ?thesis
    by (simp add: String_of_number_def int_of_decimal_def)
qed

subsection \<open>The result of a profile fetch\<close>

lemma getUserInfo_success:
  assumes "error (betterFetch (userInfoRequest opts tokens)) = None"
      and "data (betterFetch (userInfoRequest opts tokens)) = Some profile"
  shows "getUserInfo betterFetch opts tokens =
           Inr (Some \<lparr> user = defaultUser profile ++ additionalFields opts profile,
                       profileData = profile \<rparr>)"
  using assms by (simp add: getUserInfo_def Let_def)

lemma defaultUser_fields:
  "defaultUser p ''id'' = Some (JStr (String_of_number (Id p)))"
  "defaultUser p ''name'' = Some (JStr (FirstName p @ '' '' @ LastName p))"
  "defaultUser p ''email'' = Some (JStr (Email p))"
  "defaultUser p ''emailVerified'' = Some (JBool True)"
  "defaultUser p ''image'' = Some JNull"
  "defaultUser p ''membershipStatus'' =
     Some (JStr (case Status p of Some s \<Rightarrow> s | None \<Rightarrow> ''NoMembership''))"
  "defaultUser p ''membershipLevel'' =
     Some (case MembershipLevel p of Some l \<Rightarrow> JStr (Name l) | None \<Rightarrow> JNull)"
  "defaultUser p ''isActiveMember'' = Some (JBool (isActiveMember (Status p)))"
  "defaultUser p ''isAdmin'' = Some (JBool (IsAccountAdministrator p))"
  by (simp_all add: defaultUser_def baseUser_def)

lemma isActiveMember_iff:
  "isActiveMember status =
     (status = Some ''Active'' \<or> status = Some ''PendingRenewal'' \<or> status = Some ''PendingLevelChange'')"
  by (cases status) (auto simp: isActiveMember_def)

lemma override_lookup:
  "(d ++ m) k = (case m k of Some v \<Rightarrow> Some v | None \<Rightarrow> d k)"
  by (simp add: map_add_def)

lemma additionalFields_no_mapper:
  "mapProfileToUser opts = None \<Longrightarrow> additionalFields opts p = Map.empty"
  by (simp add: additionalFields_def)

lemma additionalFields_falsy:
  "mapProfileToUser opts = Some f \<Longrightarrow> f p = None \<Longrightarrow> additionalFields opts p = Map.empty"
  by (simp add: additionalFields_def)

lemmas sample_defs =
  sampleOptions_def sampleTokens_def lapsedAdmin_def activeMember_def emptyStatus_def
  noStatus_def fetchProfile_def fetchFailure_def fetchNothing_def fetchTokens_def
  mapNotAdmin_def mapAlwaysActive_def mapMembership_def mapEmptyId_def mapBaseFields_def

lemmas getUserInfo_eval =
  getUserInfo_def userField_def defaultUser_def baseUser_def additionalFields_def
  isActiveMember_def Let_def

subsection \<open>Profile fetch: failure\<close>

text \<open>
  C1. Whenever the upstream profile fetch answers with an error, or with no data,
  \<^verbatim>\<open>getUserInfo\<close> resolves to \<^verbatim>\<open>null\<close> (\<open>Inr None\<close>): the promise is not rejected
  (\<open>Inl\<close>) and no user object, complete or partial, is returned.
\<close>
theorem getUserInfo_null_on_failure:
  assumes "error (betterFetch (userInfoRequest opts tokens)) \<noteq> None \<or>
           data (betterFetch (userInfoRequest opts tokens)) = None"
  shows "getUserInfo betterFetch opts tokens = Inr None"
proof -
  let ?userInfo = "betterFetch (userInfoRequest opts tokens)"
  from assms have "error ?userInfo \<noteq> None \<or> data ?userInfo = None" .
  then show ?thesis
    unfolding getUserInfo_def Let_def by (rule if_P)
qed

theorem getUserInfo_null_on_failure_witness:
  "getUserInfo (fetchFailure ''Unauthorized'') sampleOptions sampleTokens = Inr None \<and>
   getUserInfo fetchNothing sampleOptions sampleTokens = Inr None"
  using getUserInfo_null_on_failure [of "fetchFailure ''Unauthorized''" sampleOptions sampleTokens]
        getUserInfo_null_on_failure [of fetchNothing sampleOptions sampleTokens]
  by (simp add: fetchFailure_def fetchNothing_def)

subsection \<open>Token refresh\<close>

text \<open>
  C2. Whenever the token endpoint's answer carries an error, whatever that error \<open>e\<close> is,
  \<^verbatim>\<open>refreshAccessToken\<close> is rejected with the \<^verbatim>\<open>BAD_REQUEST\<close> error whose message is
  exactly "Failed to refresh access token", and no token set is returned.
\<close>
theorem refreshAccessToken_bad_request:
  assumes "error (betterFetch (refreshRequest base64 opts rt)) = Some e"
  shows "refreshAccessToken betterFetch base64 now opts rt =
           Inl (APIError ''BAD_REQUEST'' ''Failed to refresh access token'') \<and>
         (\<forall>t. refreshAccessToken betterFetch base64 now opts rt \<noteq> Inr t)"
  using assms by (simp add: refreshAccessToken_def Let_def)

theorem refreshAccessToken_bad_request_witness:
  "refreshAccessToken (fetchFailure ''invalid_grant'') id 1700000000000 sampleOptions ''rt-1'' =
     Inl (APIError ''BAD_REQUEST'' ''Failed to refresh access token'') \<and>
   refreshAccessToken (fetchFailure ''server exploded'') id 5 sampleOptions ''rt-2'' =
     Inl (APIError ''BAD_REQUEST'' ''Failed to refresh access token'')"
  using refreshAccessToken_bad_request
          [of "fetchFailure ''invalid_grant''" id sampleOptions "''rt-1''" "''invalid_grant''" 1700000000000]
        refreshAccessToken_bad_request
          [of "fetchFailure ''server exploded''" id sampleOptions "''rt-2''" "''server exploded''" 5]
  by (simp add: fetchFailure_def)

text \<open>
  C3. For a successful answer \<open>d\<close> (no error, a body), \<^verbatim>\<open>refreshAccessToken\<close> resolves to
  a token set \<open>t\<close> with: the access token and the refresh token of \<open>d\<close>; an expiry of the
  call time plus \<^verbatim>\<open>expires_in\<close> seconds (times are in milliseconds) when
  \<^verbatim>\<open>expires_in\<close> is a non-zero number, and none when it is zero or absent; the scope string
  split on single spaces, and no scopes when the scope field is absent. The split is
  characterised by what it means: joining the pieces with a space gives the scope string
  back, no piece holds a space, and there is one piece more than there are spaces.
\<close>
theorem refreshAccessToken_token_set:
  assumes "error (betterFetch (refreshRequest base64 opts rt)) = None"
      and "data (betterFetch (refreshRequest base64 opts rt)) = Some d"
  shows "\<exists>t. refreshAccessToken betterFetch base64 now opts rt = Inr t \<and>
           accessToken t = access_token d \<and>
           refreshToken t = refresh_token d \<and>
           (\<forall>e. expires_in d = Some e \<and> e \<noteq> 0 \<longrightarrow>
                  accessTokenExpiresAt t = Some (now + e * 1000)) \<and>
           (expires_in d = Some 0 \<or> expires_in d = None \<longrightarrow> accessTokenExpiresAt t = None) \<and>
           (\<forall>s. scope d = Some s \<longrightarrow>
                  (\<exists>ws. tokenScopes t = Some ws \<and> ws = split_on CHR '' '' s \<and>
                        join_with '' '' ws = s \<and> (\<forall>w \<in> set ws. CHR '' '' \<notin> set w) \<and>
                        length ws = Suc (count_list s CHR '' ''))) \<and>
           (scope d = None \<longrightarrow> tokenScopes t = None)"
  using assms
  by (auto simp: refreshAccessToken_def Let_def truthy_number_def join_split_on
        length_split_on dest: split_on_pieces)

theorem refreshAccessToken_token_set_witness:
  "refreshAccessToken
     (fetchTokens \<lparr> access_token = ''at-2'', refresh_token = ''rt-2'',
                    expires_in = Some 3600, scope = Some ''contacts_me  contacts_view'' \<rparr>)
     id 1700000000000 sampleOptions ''rt-1'' =
   Inr \<lparr> accessToken = ''at-2'', refreshToken = ''rt-2'',
         accessTokenExpiresAt = Some 1700003600000,
         tokenScopes = Some [''contacts_me'', [], ''contacts_view''] \<rparr> \<and>
   refreshAccessToken
     (fetchTokens \<lparr> access_token = ''at-3'', refresh_token = ''rt-3'',
                    expires_in = Some 0, scope = None \<rparr>)
     id 1700000000000 sampleOptions ''rt-2'' =
   Inr \<lparr> accessToken = ''at-3'', refreshToken = ''rt-3'',
         accessTokenExpiresAt = None, tokenScopes = None \<rparr>"
  using refreshAccessToken_token_set
          [of "fetchTokens \<lparr> access_token = ''at-2'', refresh_token = ''rt-2'',
                              expires_in = Some 3600, scope = Some ''contacts_me  contacts_view'' \<rparr>"
              id sampleOptions "''rt-1''" _ 1700000000000]
        refreshAccessToken_token_set
          [of "fetchTokens \<lparr> access_token = ''at-3'', refresh_token = ''rt-3'',
                              expires_in = Some 0, scope = None \<rparr>"
              id sampleOptions "''rt-2''" _ 1700000000000]
  by (simp add: fetchTokens_def refreshAccessToken_def Let_def truthy_number_def)


subsection \<open>Profile fetch: the normalized user\<close>

text \<open>
  C4 (as amended). For every profile returned by a successful fetch, when the mapping
  function is not configured or its result has no key \<^verbatim>\<open>isActiveMember\<close>, the normalized
  user's \<^verbatim>\<open>isActiveMember\<close> is \<^verbatim>\<open>true\<close> if and only if the profile's \<^verbatim>\<open>Status\<close> is
  "Active", "PendingRenewal" or "PendingLevelChange", and \<^verbatim>\<open>false\<close> for any other status,
  an absent one included. As stated for every configuration the claim fails: the mapping
  function's result is spread last, so a mapping function that returns
  \<^verbatim>\<open>{isActiveMember: true}\<close> makes a lapsed member active.
\<close>
theorem isActiveMember_default:
  assumes "error (betterFetch (userInfoRequest opts tokens)) = None"
      and "data (betterFetch (userInfoRequest opts tokens)) = Some profile"
      and "mapProfileToUser opts = None \<or>
           additionalFields opts profile ''isActiveMember'' = None"
  shows "\<exists>r. getUserInfo betterFetch opts tokens = Inr (Some r) \<and>
           profileData r = profile \<and>
           user r ''isActiveMember'' =
             Some (JBool (Status profile = Some ''Active'' \<or>
                          Status profile = Some ''PendingRenewal'' \<or>
                          Status profile = Some ''PendingLevelChange''))"
proof -
  from assms(3) have "additionalFields opts profile ''isActiveMember'' = None"
    by (auto simp: additionalFields_no_mapper)
  then have "(defaultUser profile ++ additionalFields opts profile) ''isActiveMember'' =
               Some (JBool (isActiveMember (Status profile)))"
    by (simp add: override_lookup defaultUser_fields)
  then show ?thesis
    by (simp add: getUserInfo_success [of betterFetch opts tokens profile, OF assms(1,2)]
          isActiveMember_iff)
qed

theorem isActiveMember_default_witness:
  "userField (getUserInfo (fetchProfile activeMember) sampleOptions sampleTokens)
     ''isActiveMember'' = Some (JBool True) \<and>
   userField (getUserInfo (fetchProfile lapsedAdmin) sampleOptions sampleTokens)
     ''isActiveMember'' = Some (JBool False) \<and>
   userField (getUserInfo (fetchProfile noStatus)
                (sampleOptions \<lparr> mapProfileToUser := Some mapNotAdmin \<rparr>) sampleTokens)
     ''isActiveMember'' = Some (JBool False)"
  using isActiveMember_default
          [of "fetchProfile activeMember" sampleOptions sampleTokens activeMember]
        isActiveMember_default
          [of "fetchProfile lapsedAdmin" sampleOptions sampleTokens lapsedAdmin]
        isActiveMember_default
          [of "fetchProfile noStatus" "sampleOptions \<lparr> mapProfileToUser := Some mapNotAdmin \<rparr>"
              sampleTokens noStatus]
  by (simp add: getUserInfo_eval sample_defs)

theorem isActiveMember_counterexample:
  "Status lapsedAdmin = Some ''Lapsed'' \<and>
   userField (getUserInfo (fetchProfile lapsedAdmin)
                (sampleOptions \<lparr> mapProfileToUser := Some mapAlwaysActive \<rparr>) sampleTokens)
     ''isActiveMember'' = Some (JBool True)"
  by (simp add: getUserInfo_eval sample_defs)

text \<open>
  C5. For every profile returned by a successful fetch and every configured mapping
  function, each key/value pair of the mapping function's result is a field of the
  normalized user (it wins over the default of the same key), every key the result does
  not hold keeps the adapter's default, and with no mapping function configured (or a
  falsy result) the user is the defaults unchanged. The witness is the specification's
  example: \<^verbatim>\<open>{isAdmin: false}\<close> wins over \<^verbatim>\<open>IsAccountAdministrator: true\<close>.
\<close>
theorem mapping_overrides_defaults:
  assumes "error (betterFetch (userInfoRequest opts tokens)) = None"
      and "data (betterFetch (userInfoRequest opts tokens)) = Some profile"
  shows "\<exists>r. getUserInfo betterFetch opts tokens = Inr (Some r) \<and>
           profileData r = profile \<and>
           (\<forall>f m k v. mapProfileToUser opts = Some f \<and> f profile = Some m \<and> m k = Some v \<longrightarrow>
                        user r k = Some v) \<and>
           (\<forall>f m k. mapProfileToUser opts = Some f \<and> f profile = Some m \<and> m k = None \<longrightarrow>
                      user r k = defaultUser profile k) \<and>
           (\<forall>f. mapProfileToUser opts = Some f \<and> f profile = None \<longrightarrow>
                  user r = defaultUser profile) \<and>
           (mapProfileToUser opts = None \<longrightarrow> user r = defaultUser profile)"
proof -
  let ?r = "\<lparr> user = defaultUser profile ++ additionalFields opts profile,
               profileData = profile \<rparr>"
  have res: "getUserInfo betterFetch opts tokens = Inr (Some ?r)"
    using assms by (rule getUserInfo_success [of betterFetch opts tokens profile])
  have wins: "\<forall>f m k v. mapProfileToUser opts = Some f \<and> f profile = Some m \<and> m k = Some v \<longrightarrow>
                 user ?r k = Some v"
    by (simp add: additionalFields_def override_lookup)
  have keeps: "\<forall>f m k. mapProfileToUser opts = Some f \<and> f profile = Some m \<and> m k = None \<longrightarrow>
                 user ?r k = defaultUser profile k"
    by (simp add: additionalFields_def override_lookup)
  have falsy: "\<forall>f. mapProfileToUser opts = Some f \<and> f profile = None \<longrightarrow>
                 user ?r = defaultUser profile"
    by (simp add: additionalFields_falsy)
  have none: "mapProfileToUser opts = None \<longrightarrow> user ?r = defaultUser profile"
    by (simp add: additionalFields_no_mapper)
  have "profileData ?r = profile"
    by simp
  with res wins keeps falsy none show ?thesis
    by (intro exI [of _ ?r] conjI)
qed

theorem mapping_overrides_defaults_witness:
  "IsAccountAdministrator lapsedAdmin \<and>
   userField (getUserInfo (fetchProfile lapsedAdmin)
                (sampleOptions \<lparr> mapProfileToUser := Some mapNotAdmin \<rparr>) sampleTokens)
     ''isAdmin'' = Some (JBool False) \<and>
   userField (getUserInfo (fetchProfile lapsedAdmin)
                (sampleOptions \<lparr> mapProfileToUser := Some mapNotAdmin \<rparr>) sampleTokens)
     ''membershipStatus'' = Some (JStr ''Lapsed'') \<and>
   userField (getUserInfo (fetchProfile lapsedAdmin) sampleOptions sampleTokens)
     ''isAdmin'' = Some (JBool True)"
  using mapping_overrides_defaults
          [of "fetchProfile lapsedAdmin" "sampleOptions \<lparr> mapProfileToUser := Some mapNotAdmin \<rparr>"
              sampleTokens lapsedAdmin]
        mapping_overrides_defaults
          [of "fetchProfile lapsedAdmin" sampleOptions sampleTokens lapsedAdmin]
  by (simp add: getUserInfo_eval sample_defs)

text \<open>
  C6 (as amended). For every profile returned by a successful fetch, when the mapping
  function's result does not hold the key in question: with \<^verbatim>\<open>Status\<close> absent
  (\<^verbatim>\<open>undefined\<close> or \<^verbatim>\<open>null\<close>) \<^verbatim>\<open>membershipStatus\<close> is "NoMembership"; a present
  \<^verbatim>\<open>Status\<close>, the empty string included, is kept as it is; and with no
  \<^verbatim>\<open>MembershipLevel\<close> object \<^verbatim>\<open>membershipLevel\<close> is \<^verbatim>\<open>null\<close>. The claim as stated fails
  twice: \<^verbatim>\<open>??\<close> replaces only \<^verbatim>\<open>undefined\<close> and \<^verbatim>\<open>null\<close>, so the empty string is not
  replaced by "NoMembership"; and the mapping function may override both fields.
\<close>
theorem membership_defaults:
  assumes "error (betterFetch (userInfoRequest opts tokens)) = None"
      and "data (betterFetch (userInfoRequest opts tokens)) = Some profile"
  shows "\<exists>r. getUserInfo betterFetch opts tokens = Inr (Some r) \<and>
           profileData r = profile \<and>
           (Status profile = None \<and> additionalFields opts profile ''membershipStatus'' = None \<longrightarrow>
              user r ''membershipStatus'' = Some (JStr ''NoMembership'')) \<and>
           (\<forall>s. Status profile = Some s \<and>
                  additionalFields opts profile ''membershipStatus'' = None \<longrightarrow>
                  user r ''membershipStatus'' = Some (JStr s)) \<and>
           (MembershipLevel profile = None \<and>
              additionalFields opts profile ''membershipLevel'' = None \<longrightarrow>
              user r ''membershipLevel'' = Some JNull)"
proof -
  let ?u = "defaultUser profile ++ additionalFields opts profile"
  have res: "getUserInfo betterFetch opts tokens =
               Inr (Some \<lparr> user = ?u, profileData = profile \<rparr>)"
    using assms by (rule getUserInfo_success [of betterFetch opts tokens profile])
  have absent: "?u ''membershipStatus'' = Some (JStr ''NoMembership'')"
    if "Status profile = None" "additionalFields opts profile ''membershipStatus'' = None"
    using that by (simp add: override_lookup defaultUser_fields)
  have kept: "?u ''membershipStatus'' = Some (JStr s)"
    if "Status profile = Some s" "additionalFields opts profile ''membershipStatus'' = None"
    for s
    using that by (simp add: override_lookup defaultUser_fields)
  have level: "?u ''membershipLevel'' = Some JNull"
    if "MembershipLevel profile = None" "additionalFields opts profile ''membershipLevel'' = None"
    using that by (simp add: override_lookup defaultUser_fields)
  from absent kept level show ?thesis
    unfolding res by simp
qed

theorem membership_defaults_witness:
  "userField (getUserInfo (fetchProfile noStatus) sampleOptions sampleTokens)
     ''membershipStatus'' = Some (JStr ''NoMembership'') \<and>
   userField (getUserInfo (fetchProfile noStatus) sampleOptions sampleTokens)
     ''membershipLevel'' = Some JNull \<and>
   userField (getUserInfo (fetchProfile activeMember) sampleOptions sampleTokens)
     ''membershipStatus'' = Some (JStr ''Active'')"
  using membership_defaults [of "fetchProfile noStatus" sampleOptions sampleTokens noStatus]
        membership_defaults [of "fetchProfile activeMember" sampleOptions sampleTokens activeMember]
  by (simp add: getUserInfo_eval sample_defs)

theorem membership_defaults_counterexample:
  "Status emptyStatus = Some [] \<and>
   userField (getUserInfo (fetchProfile emptyStatus) sampleOptions sampleTokens)
     ''membershipStatus'' = Some (JStr []) \<and>
   Status noStatus = None \<and> MembershipLevel noStatus = None \<and>
   userField (getUserInfo (fetchProfile noStatus)
                (sampleOptions \<lparr> mapProfileToUser := Some mapMembership \<rparr>) sampleTokens)
     ''membershipStatus'' = Some (JStr ''Guest'') \<and>
   userField (getUserInfo (fetchProfile noStatus)
                (sampleOptions \<lparr> mapProfileToUser := Some mapMembership \<rparr>) sampleTokens)
     ''membershipLevel'' = Some (JStr ''Basic'')"
  by (simp add: getUserInfo_eval sample_defs)

text \<open>
  C7 (as amended). For every profile returned by a successful fetch, when the mapping
  function's result has no key \<^verbatim>\<open>id\<close>, the normalized user's \<^verbatim>\<open>id\<close> is
  \<^verbatim>\<open>String(profile.Id)\<close>; that string is never empty and is the decimal notation of the
  Id (reading it as a decimal numeral gives the Id back). The claim as stated fails when
  the mapping function returns an \<^verbatim>\<open>id\<close> of its own, for instance the empty string.
\<close>
theorem user_id_default:
  assumes "error (betterFetch (userInfoRequest opts tokens)) = None"
      and "data (betterFetch (userInfoRequest opts tokens)) = Some profile"
      and "mapProfileToUser opts = None \<or> additionalFields opts profile ''id'' = None"
  shows "\<exists>r. getUserInfo betterFetch opts tokens = Inr (Some r) \<and>
           profileData r = profile \<and>
           user r ''id'' = Some (JStr (String_of_number (Id profile))) \<and>
           String_of_number (Id profile) \<noteq> [] \<and>
           int_of_decimal (String_of_number (Id profile)) = Id profile"
proof -
  from assms(3) have "additionalFields opts profile ''id'' = None"
    by (auto simp: additionalFields_no_mapper)
  then have "(defaultUser profile ++ additionalFields opts profile) ''id'' =
               Some (JStr (String_of_number (Id profile)))"
    by (simp add: override_lookup defaultUser_fields)
  then show ?thesis
    by (simp add: getUserInfo_success [of betterFetch opts tokens profile, OF assms(1,2)]
          String_of_number_nonempty int_of_decimal_String_of_number)
qed

theorem user_id_default_witness:
  "userField (getUserInfo (fetchProfile lapsedAdmin) sampleOptions sampleTokens) ''id'' =
     Some (JStr ''42'') \<and>
   userField (getUserInfo (fetchProfile activeMember)
                (sampleOptions \<lparr> mapProfileToUser := Some mapNotAdmin \<rparr>) sampleTokens) ''id'' =
     Some (JStr ''1205'')"
  using user_id_default [of "fetchProfile lapsedAdmin" sampleOptions sampleTokens lapsedAdmin]
        user_id_default
          [of "fetchProfile activeMember" "sampleOptions \<lparr> mapProfileToUser := Some mapNotAdmin \<rparr>"
              sampleTokens activeMember]
  by (simp add: getUserInfo_eval sample_defs String_of_number_eval)

theorem user_id_counterexample:
  "Id lapsedAdmin = 42 \<and> String_of_number 42 = ''42'' \<and>
   userField (getUserInfo (fetchProfile lapsedAdmin)
                (sampleOptions \<lparr> mapProfileToUser := Some mapEmptyId \<rparr>) sampleTokens)
     ''id'' = Some (JStr [])"
  by (simp add: getUserInfo_eval sample_defs String_of_number_eval)

subsection \<open>Authorization URL\<close>

text \<open>
  C8. \<^verbatim>\<open>createAuthorizationURL\<close> hands the shared helper the authorization endpoint
  \<^verbatim>\<open>https://{siteName}.wildapricot.org/sys/login/OAuthLogin\<close> when a site name is set, and
  \<^verbatim>\<open>https://www.wildapricot.org/sys/login/OAuthLogin\<close> when none is. A site name is set
  when it is a non-empty string: the code tests its truthiness, so the empty string, which
  names no site, counts as unset.
\<close>
theorem authorization_endpoint:
  "(\<forall>s. siteName opts = Some s \<and> s \<noteq> [] \<longrightarrow>
         authorizationEndpoint (authorizationURLArgs opts d) =
           ''https://'' @ s @ ''.wildapricot.org'' @ ''/sys/login/OAuthLogin'') \<and>
   (siteName opts = None \<or> siteName opts = Some [] \<longrightarrow>
      authorizationEndpoint (authorizationURLArgs opts d) =
        ''https://www.wildapricot.org'' @ ''/sys/login/OAuthLogin'') \<and>
   createAuthorizationURL helper opts d = helper (authorizationURLArgs opts d)"
  by (auto simp: authorizationURLArgs_def createAuthorizationURL_def WA_SITE_URL_def
        truthy_string_def)

theorem authorization_endpoint_witness:
  "createAuthorizationURL authorizationEndpoint sampleOptions
     \<lparr> dataState = ''st'', dataRedirectURI = None \<rparr> =
     ''https://myclub.wildapricot.org/sys/login/OAuthLogin'' \<and>
   createAuthorizationURL authorizationEndpoint (sampleOptions \<lparr> siteName := None \<rparr>)
     \<lparr> dataState = ''st'', dataRedirectURI = None \<rparr> =
     ''https://www.wildapricot.org/sys/login/OAuthLogin''"
  using authorization_endpoint
          [of sampleOptions "\<lparr> dataState = ''st'', dataRedirectURI = None \<rparr>" authorizationEndpoint]
        authorization_endpoint
          [of "sampleOptions \<lparr> siteName := None \<rparr>"
              "\<lparr> dataState = ''st'', dataRedirectURI = None \<rparr>" authorizationEndpoint]
  by (simp add: sampleOptions_def)

text \<open>
  C9. \<^verbatim>\<open>createAuthorizationURL\<close> hands the shared helper the configured scope list as it
  is, in the same order, whenever one is configured (the empty list included), and the
  one-element list \<^verbatim>\<open>["contacts_me"]\<close> when none is.
\<close>
theorem scopes_passed_verbatim:
  "(\<forall>ss. scopes opts = Some ss \<longrightarrow> scopesArg (authorizationURLArgs opts d) = ss) \<and>
   (scopes opts = None \<longrightarrow> scopesArg (authorizationURLArgs opts d) = [''contacts_me'']) \<and>
   createAuthorizationURL helper opts d = helper (authorizationURLArgs opts d)"
  by (simp add: authorizationURLArgs_def createAuthorizationURL_def)

theorem scopes_passed_verbatim_witness:
  "createAuthorizationURL scopesArg (sampleOptions \<lparr> scopes := Some [''b'', ''a'', ''b''] \<rparr>)
     \<lparr> dataState = ''st'', dataRedirectURI = None \<rparr> = [''b'', ''a'', ''b''] \<and>
   createAuthorizationURL scopesArg (sampleOptions \<lparr> scopes := Some [] \<rparr>)
     \<lparr> dataState = ''st'', dataRedirectURI = None \<rparr> = [] \<and>
   createAuthorizationURL scopesArg sampleOptions
     \<lparr> dataState = ''st'', dataRedirectURI = None \<rparr> = [''contacts_me'']"
  using scopes_passed_verbatim
          [of "sampleOptions \<lparr> scopes := Some [''b'', ''a'', ''b''] \<rparr>"
              "\<lparr> dataState = ''st'', dataRedirectURI = None \<rparr>" scopesArg]
        scopes_passed_verbatim
          [of "sampleOptions \<lparr> scopes := Some [] \<rparr>"
              "\<lparr> dataState = ''st'', dataRedirectURI = None \<rparr>" scopesArg]
        scopes_passed_verbatim
          [of sampleOptions "\<lparr> dataState = ''st'', dataRedirectURI = None \<rparr>" scopesArg]
  by (simp add: sampleOptions_def)

subsection \<open>Profile fetch: overriding the base fields\<close>

text \<open>
  C10. The mapping function's result is spread last, so it replaces the base fields too:
  a value it returns under \<^verbatim>\<open>id\<close>, \<^verbatim>\<open>name\<close>, \<^verbatim>\<open>email\<close>, \<^verbatim>\<open>emailVerified\<close> or
  \<^verbatim>\<open>image\<close> is the normalized user's value of that field. \<^verbatim>\<open>emailVerified\<close> is
  \<^verbatim>\<open>true\<close> and \<^verbatim>\<open>image\<close> is \<^verbatim>\<open>null\<close> whenever the result does not hold those keys,
  and a user for which one of them is anything else got it from a configured mapping
  function that returned that key.
\<close>
theorem mapping_overrides_base_fields:
  assumes "error (betterFetch (userInfoRequest opts tokens)) = None"
      and "data (betterFetch (userInfoRequest opts tokens)) = Some profile"
  shows "\<exists>r. getUserInfo betterFetch opts tokens = Inr (Some r) \<and>
           profileData r = profile \<and>
           (\<forall>f m k v. mapProfileToUser opts = Some f \<and> f profile = Some m \<and>
                        k \<in> {''id'', ''name'', ''email'', ''emailVerified'', ''image''} \<and>
                        m k = Some v \<longrightarrow> user r k = Some v) \<and>
           (additionalFields opts profile ''emailVerified'' = None \<longrightarrow>
              user r ''emailVerified'' = Some (JBool True)) \<and>
           (additionalFields opts profile ''image'' = None \<longrightarrow> user r ''image'' = Some JNull) \<and>
           (user r ''emailVerified'' \<noteq> Some (JBool True) \<or> user r ''image'' \<noteq> Some JNull \<longrightarrow>
              (\<exists>f m. mapProfileToUser opts = Some f \<and> f profile = Some m \<and>
                     (m ''emailVerified'' \<noteq> None \<or> m ''image'' \<noteq> None)))"
  by (auto simp: getUserInfo_success [of betterFetch opts tokens profile, OF assms] override_lookup defaultUser_fields
        additionalFields_def split: option.splits)

theorem mapping_overrides_base_fields_witness:
  "userField (getUserInfo (fetchProfile lapsedAdmin)
                (sampleOptions \<lparr> mapProfileToUser := Some mapBaseFields \<rparr>) sampleTokens) ''id'' =
     Some (JStr ''wa-42'') \<and>
   userField (getUserInfo (fetchProfile lapsedAdmin)
                (sampleOptions \<lparr> mapProfileToUser := Some mapBaseFields \<rparr>) sampleTokens) ''name'' =
     Some (JStr ''Byron'') \<and>
   userField (getUserInfo (fetchProfile lapsedAdmin)
                (sampleOptions \<lparr> mapProfileToUser := Some mapBaseFields \<rparr>) sampleTokens) ''email'' =
     Some JNull \<and>
   userField (getUserInfo (fetchProfile lapsedAdmin)
                (sampleOptions \<lparr> mapProfileToUser := Some mapBaseFields \<rparr>) sampleTokens)
     ''emailVerified'' = Some (JBool False) \<and>
   userField (getUserInfo (fetchProfile lapsedAdmin)
                (sampleOptions \<lparr> mapProfileToUser := Some mapBaseFields \<rparr>) sampleTokens) ''image'' =
     Some (JStr ''https://example.org/ada.png'') \<and>
   userField (getUserInfo (fetchProfile lapsedAdmin)
                (sampleOptions \<lparr> mapProfileToUser := Some mapNotAdmin \<rparr>) sampleTokens)
     ''emailVerified'' = Some (JBool True) \<and>
   userField (getUserInfo (fetchProfile lapsedAdmin)
                (sampleOptions \<lparr> mapProfileToUser := Some mapNotAdmin \<rparr>) sampleTokens) ''image'' =
     Some JNull"
  using mapping_overrides_base_fields
          [of "fetchProfile lapsedAdmin" "sampleOptions \<lparr> mapProfileToUser := Some mapBaseFields \<rparr>"
              sampleTokens lapsedAdmin]
        mapping_overrides_base_fields
          [of "fetchProfile lapsedAdmin" "sampleOptions \<lparr> mapProfileToUser := Some mapNotAdmin \<rparr>"
              sampleTokens lapsedAdmin]
  by (simp add: getUserInfo_eval sample_defs String_of_number_eval)

end
